theory Spec2Isabelle
  imports Complex_Main "HOL-Library.Word"
begin

unbundle bit_operations_syntax

section \<open>Pixel data\<close>

text \<open>
  The program (src/main.cpp) works on SDL surfaces whose pixel storage is read and written
  through \<open>uint8_t*\<close>.  A pixel byte is an 8-bit word; a pixel store is the list of the
  bytes the loops address, in index order (the loops ignore the pitch of a surface and treat
  its storage as one run of \<open>w * h\<close> pixels).
\<close>

type_synonym uint8_t = "8 word"

text \<open>\<open>SDL_Color\<close>: four \<open>Uint8\<close> channels.\<close>

record SDL_Color =
  r :: uint8_t
  g :: uint8_t
  b :: uint8_t
  a :: uint8_t

text \<open>
  The fields of \<open>SDL_Surface\<close> the program reads: \<open>w\<close>, \<open>h\<close>,
  \<open>format->BitsPerPixel\<close> and \<open>pixels\<close>.  Widths and heights of existing surfaces are
  never negative, and \<open>w * h\<close> is taken below the range where the C \<open>int\<close> product
  overflows.
\<close>

record SDL_Surface =
  w :: nat
  h :: nat
  BitsPerPixel :: nat
  pixels :: "uint8_t list"

section \<open>Double precision arithmetic of the distance\<close>

text \<open>
  \<open>findClosestPaletteEntry\<close> computes its distance in \<open>double\<close>.  A finite double is
  modelled by the rational number it denotes; every operation is the exact operation followed
  by rounding to the nearest number with a 53-bit significand, ties to even (IEEE 754
  binary64, default rounding).  All values that occur are zero or lie between \<open>0.1\<close> and
  \<open>65025\<close>, far from the subnormal and the overflow range, which \<open>to_double\<close> does not
  model.
\<close>

function bit_length :: "int \<Rightarrow> int" where
  "bit_length n = (if n \<le> 0 then 0 else 1 + bit_length (n div 2))"
  by pat_completeness auto
termination
  by (relation "measure nat") auto

declare bit_length.simps [simp del]

text \<open>\<open>ilog2 x\<close> is the binary exponent of a positive rational: \<open>2^e \<le> x < 2^(e+1)\<close>.\<close>

definition ilog2 :: "rat \<Rightarrow> int" where
  "ilog2 x =
     (let (num, den) = quotient_of x;
          d = bit_length num - bit_length den
      in if 2 powi d \<le> x then d else d - 1)"

definition round_even :: "rat \<Rightarrow> int" where
  "round_even q =
     (let f = \<lfloor>q\<rfloor>; d = q - of_int f
      in if d < 1 / 2 then f
         else if 1 / 2 < d then f + 1
         else if even f then f else f + 1)"

definition to_double :: "rat \<Rightarrow> rat" where
  "to_double x =
     (if x = 0 then 0
      else let ulp = 2 powi (ilog2 \<bar>x\<bar> - 52)
           in of_int (round_even (x / ulp)) * ulp)"

definition dmul :: "rat \<Rightarrow> rat \<Rightarrow> rat" where
  "dmul x y = to_double (x * y)"

definition dadd :: "rat \<Rightarrow> rat \<Rightarrow> rat" where
  "dadd x y = to_double (x + y)"

text \<open>The value of \<open>lowestDistance\<close>: \<open>INFINITY\<close> before the first palette entry, a finite
  double afterwards.\<close>

datatype lowest = INFINITY | Finite rat

fun less_lowest :: "rat \<Rightarrow> lowest \<Rightarrow> bool" where
  "less_lowest d INFINITY = True"
| "less_lowest d (Finite l) = (d < l)"

section \<open>findClosestPaletteEntry\<close>

text \<open>
  Lines 334--337.  The channel differences and their squares are \<open>int\<close> arithmetic on the
  promoted \<open>Uint8\<close> values; each square is converted to \<open>double\<close> and multiplied by the
  double nearest to the decimal literal; the sum associates to the left.
\<close>

definition distance :: "SDL_Color \<Rightarrow> SDL_Color \<Rightarrow> rat" where
  "distance p_color color =
     dadd
       (dadd
          (dmul (to_double (of_int ((uint (r p_color) - uint (r color)) * (uint (r p_color) - uint (r color)))))
                (to_double (30 / 100)))
          (dmul (to_double (of_int ((uint (g p_color) - uint (g color)) * (uint (g p_color) - uint (g color)))))
                (to_double (59 / 100))))
       (dmul (to_double (of_int ((uint (b p_color) - uint (b color)) * (uint (b p_color) - uint (b color)))))
             (to_double (11 / 100)))"

text \<open>
  The distance as the specification writes it, \<open>0.30 * dR^2 + 0.59 * dG^2 + 0.11 * dB^2\<close>,
  in exact arithmetic.  It is compared with \<open>distance\<close> below.
\<close>

definition weighted_distance :: "SDL_Color \<Rightarrow> SDL_Color \<Rightarrow> rat" where
  "weighted_distance p_color color =
     30 / 100 * of_int ((uint (r p_color) - uint (r color)) * (uint (r p_color) - uint (r color)))
     + 59 / 100 * of_int ((uint (g p_color) - uint (g color)) * (uint (g p_color) - uint (g color)))
     + 11 / 100 * of_int ((uint (b p_color) - uint (b color)) * (uint (b p_color) - uint (b color)))"

text \<open>
  The loop of lines 330--344, from index \<open>i\<close> on.  The palette itself is declared in
  main.hpp and is a parameter here.  \<open>closestIndex = i\<close> stores a \<open>size_t\<close> in a
  \<open>uint8_t\<close>.
\<close>

function closest_loop :: "SDL_Color list \<Rightarrow> SDL_Color \<Rightarrow> nat \<Rightarrow> uint8_t \<Rightarrow> lowest \<Rightarrow> uint8_t" where
  "closest_loop palette color i closestIndex lowestDistance =
     (if i < length palette
      then (if less_lowest (distance (palette ! i) color) lowestDistance
            then closest_loop palette color (i + 1) (of_nat i) (Finite (distance (palette ! i) color))
            else closest_loop palette color (i + 1) closestIndex lowestDistance)
      else closestIndex)"
  by pat_completeness auto
termination
  by (relation "measure (\<lambda>(palette, color, i, closestIndex, lowestDistance). length palette - i)") auto

declare closest_loop.simps [simp del]

definition findClosestPaletteEntry :: "SDL_Color list \<Rightarrow> SDL_Color \<Rightarrow> uint8_t" where
  "findClosestPaletteEntry palette color = closest_loop palette color 0 0 INFINITY"

section \<open>convertSurfaceToIndex\<close>

text \<open>
  The function returns 1 on every failure; the failures differ in the message passed to
  \<open>SDL_SetError\<close> (none for a null pointer or a failed lock).
\<close>

datatype convert_error =
    Null_Surface              \<comment> \<open>\<open>source == nullptr || dest == nullptr\<close>\<close>
  | Source_Not_RGB888         \<comment> \<open>"Source Surface is not RGB888."\<close>
  | Dest_Not_Index8           \<comment> \<open>"Dest Surface is not Index8."\<close>
  | Resolutions_Not_Equal     \<comment> \<open>"Source Surface and Dest Surface resolutions are not equal."\<close>
  | Lock_Failed               \<comment> \<open>\<open>SDL_LockSurface\<close> returned non-zero\<close>

text \<open>The results of the SDL calls whose failure the program tests.\<close>

record sdl_calls =
  create_surface_ok :: bool
  set_palette_ok :: bool
  lock_source_ok :: bool
  lock_dest_ok :: bool
  create_texture_ok :: bool
  set_logical_size_ok :: bool
  render_copy_ok :: bool

text \<open>Lines 306--316: pixel \<open>i\<close> is read as the bytes B, G, R at offset \<open>3 * i\<close>.\<close>

definition source_color :: "uint8_t list \<Rightarrow> nat \<Rightarrow> SDL_Color" where
  "source_color source_pixels i =
     \<lparr>r = source_pixels ! (i * 3 + 2), g = source_pixels ! (i * 3 + 1),
      b = source_pixels ! (i * 3), a = 0\<rparr>"

definition copy_pixels :: "SDL_Color list \<Rightarrow> uint8_t list \<Rightarrow> nat \<Rightarrow> uint8_t list \<Rightarrow> uint8_t list" where
  "copy_pixels palette source_pixels source_count dest_pixels =
     fold (\<lambda>i dest. dest[i := findClosestPaletteEntry palette (source_color source_pixels i)])
          [0..<source_count] dest_pixels"

text \<open>
  The result is the error (\<open>None\<close> for the return value 0) and the destination surface
  after the call.
\<close>

definition convertSurfaceToIndex ::
  "SDL_Color list \<Rightarrow> sdl_calls \<Rightarrow> SDL_Surface option \<Rightarrow> SDL_Surface option
     \<Rightarrow> convert_error option \<times> SDL_Surface option" where
  "convertSurfaceToIndex palette env source dest =
     (case (source, dest) of
        (Some src, Some dst) \<Rightarrow>
          (let source_count = w src * h src; dest_count = w dst * h dst
           in if BitsPerPixel src \<noteq> 24 then (Some Source_Not_RGB888, dest)
              else if BitsPerPixel dst \<noteq> 8 then (Some Dest_Not_Index8, dest)
              else if source_count \<noteq> dest_count then (Some Resolutions_Not_Equal, dest)
              else if \<not> lock_source_ok env then (Some Lock_Failed, dest)
              else if \<not> lock_dest_ok env then (Some Lock_Failed, dest)
              else (None, Some (dst\<lparr>pixels := copy_pixels palette (pixels src) source_count (pixels dst)\<rparr>)))
      | _ \<Rightarrow> (Some Null_Surface, dest))"

section \<open>The darkness loop of updateDarkLevel\<close>

text \<open>
  Body of the loop in \<open>updateDarkLevel\<close> (lines 378--387).  \<open>darkLevel\<close> is a C
  \<open>int\<close>; \<open>color\<close> is promoted to \<open>int\<close> for the comparison with
  \<open>UINT8_MAX - (32 * darkLevel)\<close>, and \<open>color += (32 * darkLevel)\<close> stores the sum
  truncated to eight bits.
\<close>

definition dark_pixel :: "int \<Rightarrow> uint8_t \<Rightarrow> uint8_t" where
  "dark_pixel level color =
     (if level = 8 \<or> uint color > 255 - (32 * level)
      then 255
      else word_of_int (uint color + 32 * level))"

text \<open>
  The loop itself: for every \<open>i < surface_size\<close> the byte \<open>source_pixels[i]\<close> is read
  and \<open>lit_pixels[i]\<close> is written.
\<close>

definition dark_loop :: "int \<Rightarrow> uint8_t list \<Rightarrow> nat \<Rightarrow> uint8_t list \<Rightarrow> uint8_t list" where
  "dark_loop level source_pixels surface_size lit_pixels =
     fold (\<lambda>i lit. lit[i := dark_pixel level (source_pixels ! i)]) [0..<surface_size] lit_pixels"

section \<open>The tint loop of updateUnderwater\<close>

text \<open>Body of the loop in \<open>updateUnderwater\<close> (lines 416--422).\<close>

definition underwater_pixel :: "bool \<Rightarrow> uint8_t \<Rightarrow> uint8_t" where
  "underwater_pixel flag color = (if flag then color OR 0x10 else color)"

text \<open>The loop mutates \<open>lit_pixels\<close> in place, index by index.\<close>

definition underwater_loop :: "bool \<Rightarrow> nat \<Rightarrow> uint8_t list \<Rightarrow> uint8_t list" where
  "underwater_loop flag surface_size lit_pixels =
     fold (\<lambda>i lit. lit[i := underwater_pixel flag (lit ! i)]) [0..<surface_size] lit_pixels"

section \<open>Program state\<close>

text \<open>
  The globals of main.cpp.  A texture is the copy of a surface that
  \<open>SDL_CreateTextureFromSurface\<close> takes; the main loop presents \<open>render_texture\<close> on every
  iteration.  \<open>logical_size\<close> is the renderer's logical size.
\<close>

record state =
  render_surface :: "SDL_Surface option"
  lit_surface :: "SDL_Surface option"
  render_texture :: "SDL_Surface option"
  logical_size :: "nat \<times> nat"
  exitRequested :: bool
  darkLevel :: int
  underWater :: bool

definition initial_state :: state where
  "initial_state =
     \<lparr>render_surface = None, lit_surface = None, render_texture = None,
      logical_size = (800, 600), exitRequested = False, darkLevel = 0, underWater = False\<rparr>"

text \<open>\<open>SDL_CreateRGBSurfaceWithFormat(0, w, h, 8, SDL_PIXELFORMAT_INDEX8)\<close>: SDL clears the
  pixel storage of a new surface.\<close>

definition new_index8_surface :: "nat \<Rightarrow> nat \<Rightarrow> SDL_Surface" where
  "new_index8_surface width height =
     \<lparr>w = width, h = height, BitsPerPixel = 8, pixels = replicate (width * height) 0\<rparr>"

text \<open>
  \<open>renderNewSurface\<close> (lines 206--256) assigns the globals as it goes and returns 1 at the
  first failing step.
\<close>

definition renderNewSurface :: "SDL_Color list \<Rightarrow> sdl_calls \<Rightarrow> SDL_Surface \<Rightarrow> state \<Rightarrow> int \<times> state" where
  "renderNewSurface palette env surface s =
     (if \<not> create_surface_ok env then (1, s\<lparr>render_surface := None\<rparr>)
      else
        let s1 = s\<lparr>render_surface := Some (new_index8_surface (w surface) (h surface))\<rparr>
        in if \<not> set_palette_ok env then (1, s1)
           else
             (case convertSurfaceToIndex palette env (Some surface) (render_surface s1) of
                (Some err, dest) \<Rightarrow> (1, s1\<lparr>render_surface := dest\<rparr>)
              | (None, dest) \<Rightarrow>
                  let s2 = s1\<lparr>render_surface := dest\<rparr>
                  in if \<not> create_texture_ok env then (1, s2\<lparr>render_texture := None\<rparr>)
                     else
                       let s3 = s2\<lparr>render_texture := dest\<rparr>
                       in if \<not> set_logical_size_ok env then (1, s3)
                          else
                            let s4 = s3\<lparr>logical_size := (case dest of Some d \<Rightarrow> (w d, h d)
                                                             | None \<Rightarrow> logical_size s3)\<rparr>
                            in if \<not> render_copy_ok env then (1, s4) else (0, s4)))"

text \<open>\<open>loadNewBMP\<close> (lines 188--199); \<open>temp\<close> is what \<open>SDL_LoadBMP\<close> returned.\<close>

definition loadNewBMP :: "SDL_Color list \<Rightarrow> sdl_calls \<Rightarrow> SDL_Surface option \<Rightarrow> state \<Rightarrow> int \<times> state" where
  "loadNewBMP palette env temp s =
     (case temp of
        None \<Rightarrow> (1, s)
      | Some surface \<Rightarrow> renderNewSurface palette env surface s)"

text \<open>
  \<open>updateDarkLevel\<close> (lines 351--396).  The new \<open>lit_surface\<close> is used without a null
  check; its creation is taken to succeed.
\<close>

definition updateDarkLevel :: "state \<Rightarrow> state" where
  "updateDarkLevel s =
     (case render_surface s of
        None \<Rightarrow> s
      | Some rs \<Rightarrow>
          let surface_size = w rs * h rs;
              fresh = new_index8_surface (w rs) (h rs);
              lit = fresh\<lparr>pixels := dark_loop (darkLevel s) (pixels rs) surface_size (pixels fresh)\<rparr>
          in s\<lparr>lit_surface := Some lit, render_texture := Some lit\<rparr>)"

text \<open>
  \<open>updateUnderwater\<close> (lines 400--431) tests \<open>render_surface\<close> and then dereferences
  \<open>lit_surface\<close>; a null \<open>lit_surface\<close> there is a crash, the result \<open>None\<close>.
\<close>

definition updateUnderwater :: "state \<Rightarrow> state option" where
  "updateUnderwater s =
     (case render_surface s of
        None \<Rightarrow> Some s
      | Some rs \<Rightarrow>
          (case lit_surface s of
             None \<Rightarrow> None
           | Some lit \<Rightarrow>
               let surface_size = w lit * h lit;
                   lit' = lit\<lparr>pixels := underwater_loop (underWater s) surface_size (pixels lit)\<rparr>
               in Some (s\<lparr>lit_surface := Some lit', render_texture := Some lit'\<rparr>)))"

section \<open>Events\<close>

datatype scancode = SDL_SCANCODE_UP | SDL_SCANCODE_DOWN | SDL_SCANCODE_SPACE | SDL_SCANCODE_OTHER

text \<open>
  A drop event carries a file path; what the program sees of it is the surface
  \<open>SDL_LoadBMP\<close> returns for that path (\<open>None\<close> for a null pointer) and the results of the
  SDL calls made while the file is rendered.
\<close>

datatype event =
    SDL_QUIT
  | SDL_DROPFILE "SDL_Surface option" sdl_calls
  | SDL_KEYDOWN scancode
  | SDL_OTHER

text \<open>The body of the \<open>while(SDL_PollEvent(&event))\<close> loop, lines 119--177.\<close>

fun handle_event :: "SDL_Color list \<Rightarrow> event \<Rightarrow> state \<Rightarrow> state option" where
  "handle_event palette SDL_QUIT s = Some (s\<lparr>exitRequested := True\<rparr>)"
| "handle_event palette (SDL_DROPFILE temp env) s = Some (snd (loadNewBMP palette env temp s))"
| "handle_event palette (SDL_KEYDOWN SDL_SCANCODE_UP) s =
     updateUnderwater (updateDarkLevel (if darkLevel s > 0 then s\<lparr>darkLevel := darkLevel s - 1\<rparr> else s))"
| "handle_event palette (SDL_KEYDOWN SDL_SCANCODE_DOWN) s =
     updateUnderwater (updateDarkLevel (if darkLevel s < 8 then s\<lparr>darkLevel := darkLevel s + 1\<rparr> else s))"
| "handle_event palette (SDL_KEYDOWN SDL_SCANCODE_SPACE) s =
     updateUnderwater (updateDarkLevel (s\<lparr>underWater := \<not> underWater s\<rparr>))"
| "handle_event palette (SDL_KEYDOWN SDL_SCANCODE_OTHER) s = Some s"
| "handle_event palette SDL_OTHER s = Some s"

text \<open>\<open>handleEvents\<close>: the events are handled in the order they are polled.\<close>

fun handleEvents :: "SDL_Color list \<Rightarrow> event list \<Rightarrow> state \<Rightarrow> state option" where
  "handleEvents palette [] s = Some s"
| "handleEvents palette (e # es) s =
     (case handle_event palette e s of
        None \<Rightarrow> None
      | Some s' \<Rightarrow> handleEvents palette es s')"

section \<open>Sample data\<close>

text \<open>
  The palette table is not part of main.cpp.  Where a concrete table is needed to run the
  functions, this one is used: black at index 0 and white at every other index, 256 entries.
\<close>

definition sample_palette :: "SDL_Color list" where
  "sample_palette =
     \<lparr>r = 0, g = 0, b = 0, a = 255\<rparr> # replicate 255 \<lparr>r = 255, g = 255, b = 255, a = 255\<rparr>"

text \<open>
  A second table for running the functions: (10, 0, 11) at index 0 and (12, 0, 1) at every
  other index.  From the colour (0, 0, 0) all entries have the same exact weighted sum.
\<close>

definition tie_palette :: "SDL_Color list" where
  "tie_palette =
     \<lparr>r = 10, g = 0, b = 11, a = 255\<rparr> # replicate 255 \<lparr>r = 12, g = 0, b = 1, a = 255\<rparr>"

text \<open>Every SDL call succeeds.\<close>

definition all_ok :: sdl_calls where
  "all_ok =
     \<lparr>create_surface_ok = True, set_palette_ok = True, lock_source_ok = True,
      lock_dest_ok = True, create_texture_ok = True, set_logical_size_ok = True,
      render_copy_ok = True\<rparr>"

text \<open>A 1x1 bitmap with 24 bits per pixel, its pixel stored as B, G, R = 10, 10, 10.\<close>

definition dark_grey_bmp :: SDL_Surface where
  "dark_grey_bmp = \<lparr>w = 1, h = 1, BitsPerPixel = 24, pixels = [10, 10, 10]\<rparr>"

text \<open>A 1x1 bitmap with 24 bits per pixel whose pixel has the given colour.\<close>

definition one_pixel_bmp :: "SDL_Color \<Rightarrow> SDL_Surface" where
  "one_pixel_bmp color = \<lparr>w = 1, h = 1, BitsPerPixel = 24, pixels = [b color, g color, r color]\<rparr>"

text \<open>A 2x1 bitmap with 32 bits per pixel, as \<open>SDL_LoadBMP\<close> returns for a 32-bit file.\<close>

definition argb_bmp :: SDL_Surface where
  "argb_bmp = \<lparr>w = 2, h = 1, BitsPerPixel = 32, pixels = [1, 2, 3, 255, 4, 5, 6, 255]\<rparr>"

text \<open>
  A state with an image on display: base buffer \<open>[5]\<close>, darkness level 0, not under water.
\<close>

definition showing_state :: state where
  "showing_state =
     \<lparr>render_surface = Some \<lparr>w = 1, h = 1, BitsPerPixel = 8, pixels = [5]\<rparr>,
      lit_surface = Some \<lparr>w = 1, h = 1, BitsPerPixel = 8, pixels = [5]\<rparr>,
      render_texture = Some \<lparr>w = 1, h = 1, BitsPerPixel = 8, pixels = [5]\<rparr>,
      logical_size = (1, 1), exitRequested = False, darkLevel = 0, underWater = False\<rparr>"

text \<open>
  The state after an image whose pixel is index 0 was dropped and the space key pressed once:
  base buffer \<open>[0]\<close>, lit buffer \<open>[16]\<close>, under water.
\<close>

definition tinted_state :: state where
  "tinted_state =
     \<lparr>render_surface = Some \<lparr>w = 1, h = 1, BitsPerPixel = 8, pixels = [0]\<rparr>,
      lit_surface = Some \<lparr>w = 1, h = 1, BitsPerPixel = 8, pixels = [16]\<rparr>,
      render_texture = Some \<lparr>w = 1, h = 1, BitsPerPixel = 8, pixels = [16]\<rparr>,
      logical_size = (1, 1), exitRequested = False, darkLevel = 0, underWater = True\<rparr>"

section \<open>Loops as maps\<close>

lemma fold_update_prefix:
  "n \<le> length dst \<Longrightarrow>
   fold (\<lambda>i d. d[i := f i]) [0..<n] dst = map f [0..<n] @ drop n dst"
proof (induction n)
  case 0
  then show ?case by simp
next
  case (Suc n)
  then have n: "n < length dst" by simp
  have "fold (\<lambda>i d. d[i := f i]) [0..<Suc n] dst
          = (map f [0..<n] @ drop n dst)[n := f n]"
    using Suc by simp
  also have "\<dots> = map f [0..<n] @ (drop n dst)[0 := f n]"
    by (simp add: list_update_append)
  also have "(drop n dst)[0 := f n] = f n # drop (Suc n) dst"
    using n by (simp add: Cons_nth_drop_Suc [symmetric])
  finally show ?case by simp
qed

lemma fold_update_self:
  "n \<le> length xs \<Longrightarrow>
   fold (\<lambda>i d. d[i := f (d ! i)]) [0..<n] xs = map f (take n xs) @ drop n xs"
proof (induction n)
  case 0
  then show ?case by simp
next
  case (Suc n)
  then have n: "n < length xs" by simp
  have "fold (\<lambda>i d. d[i := f (d ! i)]) [0..<Suc n] xs
          = (map f (take n xs) @ drop n xs)[n := f ((map f (take n xs) @ drop n xs) ! n)]"
    using Suc by simp
  also have "(map f (take n xs) @ drop n xs) ! n = xs ! n"
    using n by (simp add: nth_append)
  also have "(map f (take n xs) @ drop n xs)[n := f (xs ! n)]
               = map f (take n xs) @ (drop n xs)[0 := f (xs ! n)]"
    using n by (simp add: list_update_append)
  also have "(drop n xs)[0 := f (xs ! n)] = f (xs ! n) # drop (Suc n) xs"
    using n by (simp add: Cons_nth_drop_Suc [symmetric])
  finally show ?case
    using n by (simp add: take_Suc_conv_app_nth)
qed

lemma dark_loop_map:
  assumes "length source_pixels = n" and "length lit_pixels = n"
  shows "dark_loop level source_pixels n lit_pixels = map (dark_pixel level) source_pixels"
proof -
  have "dark_loop level source_pixels n lit_pixels
          = map (\<lambda>i. dark_pixel level (source_pixels ! i)) [0..<n] @ drop n lit_pixels"
    unfolding dark_loop_def using assms(2) by (intro fold_update_prefix) simp
  also have "\<dots> = map (\<lambda>i. dark_pixel level (source_pixels ! i)) [0..<n]"
    using assms(2) by simp
  also have "\<dots> = map (dark_pixel level) source_pixels"
    using assms(1) by (intro nth_equalityI) simp_all
  finally show ?thesis .
qed

lemma underwater_loop_map:
  assumes "length lit_pixels = n"
  shows "underwater_loop flag n lit_pixels = map (underwater_pixel flag) lit_pixels"
  unfolding underwater_loop_def using assms by (simp add: fold_update_self)

section \<open>The darkness transform\<close>

lemma uint_dark_pixel:
  assumes "0 \<le> level" and "level \<le> 8"
  shows "uint (dark_pixel level v)
           = (if level = 8 \<or> uint v > 255 - 32 * level then 255 else uint v + 32 * level)"
proof (cases "level = 8 \<or> uint v > 255 - 32 * level")
  case True
  then show ?thesis by (simp add: dark_pixel_def)
next
  case False
  have "0 \<le> uint v" by simp
  with False assms have "uint v + 32 * level < 256" "0 \<le> uint v + 32 * level" by auto
  then have "uint (word_of_int (uint v + 32 * level) :: uint8_t) = uint v + 32 * level"
    unfolding uint_word_of_int by (simp add: take_bit_int_eq_self)
  with False show ?thesis by (simp add: dark_pixel_def del: of_int_add of_int_mult)
qed

lemma uint_dark_pixel_min:
  assumes "0 \<le> level" and "level \<le> 8"
  shows "uint (dark_pixel level v) = min 255 (uint v + 32 * level)"
proof -
  have "uint v < 256" using uint_bounded [of v] by simp
  moreover have "0 \<le> uint v" by simp
  ultimately show ?thesis using assms by (auto simp: uint_dark_pixel)
qed

text \<open>
  Claim C2.  For every index value \<open>v\<close> and every darkness level in \<open>[0, 8]\<close> the darkness
  loop writes 255 when the level is 8 or \<open>v > 255 - 32 * level\<close>, and \<open>v + 32 * level\<close>
  otherwise; run over a whole buffer it transforms every value so; the base buffer
  \<open>[5, 250, 0]\<close> at level 2 becomes \<open>[69, 255, 64]\<close>.
\<close>

theorem dark_pixel_cases:
  assumes "0 \<le> level" and "level \<le> 8"
  shows "uint (dark_pixel level v)
           = (if level = 8 \<or> uint v > 255 - 32 * level then 255 else uint v + 32 * level)
       \<and> dark_loop level base (length base) (replicate (length base) 0)
           = map (dark_pixel level) base
       \<and> dark_loop 2 [5, 250, 0] 3 [0, 0, 0] = [69, 255, 64]"
proof (intro conjI)
  show "uint (dark_pixel level v)
          = (if level = 8 \<or> uint v > 255 - 32 * level then 255 else uint v + 32 * level)"
    using assms by (rule uint_dark_pixel)
  show "dark_loop level base (length base) (replicate (length base) 0)
          = map (dark_pixel level) base"
    by (rule dark_loop_map) simp_all
  have "dark_loop 2 [5, 250, 0] 3 [0, 0, 0] = map (dark_pixel 2) [5, 250, 0]"
    by (rule dark_loop_map) simp_all
  then show "dark_loop 2 [5, 250, 0] 3 [0, 0, 0] = [69, 255, 64]"
    by (simp add: dark_pixel_def)
qed

theorem dark_pixel_cases_witness:
  "(0::int) \<le> 2 \<and> (2::int) \<le> 8
   \<and> uint (dark_pixel 2 250) = 255 \<and> uint (dark_pixel 2 5) = 69
   \<and> dark_loop 2 [5, 250, 0] 3 [0, 0, 0] = [69, 255, 64]"
  using dark_pixel_cases [of 2 250 "[]"] dark_pixel_cases [of 2 5 "[]"] by simp

text \<open>
  Claim C8.  For every index value and all levels \<open>la \<le> lb\<close> in \<open>[0, 8]\<close>, the value
  written at level \<open>lb\<close> is at least the value written at level \<open>la\<close>.
\<close>

theorem dark_pixel_mono:
  assumes "0 \<le> la" and "la \<le> lb" and "lb \<le> 8"
  shows "dark_pixel la v \<le> dark_pixel lb v"
proof -
  have "uint (dark_pixel la v) \<le> uint (dark_pixel lb v)"
    using assms by (simp add: uint_dark_pixel_min)
  then show ?thesis by (simp add: word_le_def)
qed

theorem dark_pixel_mono_witness:
  "(0::int) \<le> 1 \<and> (1::int) \<le> 3 \<and> (3::int) \<le> 8 \<and> dark_pixel 1 200 \<le> dark_pixel 3 200"
  using dark_pixel_mono [of 1 3 200] by simp

text \<open>
  Claim C10.  For every index value \<open>v\<close> and every level in \<open>[0, 8]\<close>, the value written by
  the darkness loop is at least \<open>v\<close>.
\<close>

theorem dark_pixel_increasing:
  assumes "0 \<le> level" and "level \<le> 8"
  shows "v \<le> dark_pixel level v"
proof -
  have "uint v < 256" using uint_bounded [of v] by simp
  then have "uint v \<le> uint (dark_pixel level v)"
    using assms by (simp add: uint_dark_pixel_min)
  then show ?thesis by (simp add: word_le_def)
qed

theorem dark_pixel_increasing_witness:
  "(0::int) \<le> 3 \<and> (3::int) \<le> 8 \<and> (100::uint8_t) \<le> dark_pixel 3 100"
  using dark_pixel_increasing [of 3 100] by simp

section \<open>The tint transform\<close>

text \<open>
  Claim C3.  Run over an index buffer, the tint loop maps every value \<open>v\<close> to
  \<open>v OR 0x10\<close> when the flag is true (bit 4 is then set in every value) and leaves the
  buffer as it is when the flag is false; running it twice with the flag true gives the same
  buffer as running it once.
\<close>

theorem underwater_loop_tint:
  "underwater_loop True (length buf) buf = map (\<lambda>v. v OR 0x10) buf
   \<and> map (\<lambda>v. bit v 4) (underwater_loop True (length buf) buf) = replicate (length buf) True
   \<and> underwater_loop False (length buf) buf = buf
   \<and> underwater_loop True (length buf) (underwater_loop True (length buf) buf)
       = underwater_loop True (length buf) buf
   \<and> underwater_loop True 3 [0, 16, 255] = [16, 16, 255]"
proof (intro conjI)
  show t: "underwater_loop True (length buf) buf = map (\<lambda>v. v OR 0x10) buf"
    by (simp add: underwater_loop_map underwater_pixel_def)
  show "map (\<lambda>v. bit v 4) (underwater_loop True (length buf) buf) = replicate (length buf) True"
    unfolding t by (simp add: bit_or_iff o_def map_replicate_const)
  show "underwater_loop False (length buf) buf = buf"
    by (simp add: underwater_loop_map) (rule map_idI, simp add: underwater_pixel_def)
  have "underwater_loop True (length buf) (map (\<lambda>v. v OR 0x10) buf)
          = map (underwater_pixel True) (map (\<lambda>v. v OR 0x10) buf)"
    by (rule underwater_loop_map) simp
  then show "underwater_loop True (length buf) (underwater_loop True (length buf) buf)
               = underwater_loop True (length buf) buf"
    unfolding t by (simp add: underwater_pixel_def)
  have "underwater_loop True 3 [0, 16, 255] = map (underwater_pixel True) [0, 16, 255]"
    by (rule underwater_loop_map) simp
  then show "underwater_loop True 3 [0, 16, 255] = [16, 16, 255]"
    by (simp add: underwater_pixel_def)
qed

section \<open>Rounding in the distance\<close>

text \<open>
  Every rounding in \<open>distance\<close> is of a value below \<open>2^17\<close> and moves it by at most
  \<open>2^-37\<close>, so the computed distance is within \<open>1/200\<close> of the exact weighted sum,
  while two different exact sums are at least \<open>1/100\<close> apart.
\<close>

lemma bit_length_bounds:
  "0 < n \<Longrightarrow> 0 < bit_length n \<and> 2 ^ nat (bit_length n - 1) \<le> n \<and> n < 2 ^ nat (bit_length n)"
proof (induction n rule: bit_length.induct)
  case (1 n)
  then have pos: "0 < n" by simp
  have bl: "bit_length n = 1 + bit_length (n div 2)"
    using pos by (subst bit_length.simps) simp
  show ?case
  proof (cases "n div 2 \<le> 0")
    case True
    with pos have "n = 1" by linarith
    moreover have "bit_length (n div 2) = 0"
      using True by (subst bit_length.simps) simp
    ultimately show ?thesis using bl by simp
  next
    case False
    then have half: "0 < n div 2" by simp
    with "1.IH" pos have IH: "0 < bit_length (n div 2)"
        "2 ^ nat (bit_length (n div 2) - 1) \<le> n div 2"
        "n div 2 < 2 ^ nat (bit_length (n div 2))"
      by simp_all
    let ?k = "bit_length (n div 2)"
    have k: "nat ?k = Suc (nat (?k - 1))" using IH(1) by simp
    have "(2::int) ^ nat ?k = 2 * 2 ^ nat (?k - 1)" by (subst k) simp
    also have "\<dots> \<le> 2 * (n div 2)" using IH(2) by simp
    also have "\<dots> \<le> n" by simp
    finally have lower: "2 ^ nat (bit_length n - 1) \<le> n" using bl by simp
    have "n < 2 * (n div 2) + 2" by linarith
    also have "\<dots> \<le> 2 * 2 ^ nat ?k" using IH(3) by simp
    also have "\<dots> = 2 ^ nat (1 + ?k)" using IH(1) by (simp add: nat_add_distrib)
    finally have upper: "n < 2 ^ nat (bit_length n)" using bl by simp
    from lower upper IH(1) bl show ?thesis by simp
  qed
qed

lemma ilog2_bounds:
  assumes "0 < x"
  shows "2 powi (ilog2 x) \<le> x" and "x < 2 powi (ilog2 x + 1)"
proof -
  obtain num den where q: "quotient_of x = (num, den)" by (cases "quotient_of x")
  then have den: "0 < den" and x: "x = of_int num / of_int den"
    by (simp_all add: quotient_of_denom_pos quotient_of_div)
  with assms have num: "0 < num" by (simp add: zero_less_divide_iff)
  let ?d = "bit_length num - bit_length den"
  from bit_length_bounds [OF num] have n1: "0 < bit_length num"
    and n2: "(2::int) ^ nat (bit_length num - 1) \<le> num"
    and n4: "num < (2::int) ^ nat (bit_length num)" by simp_all
  from bit_length_bounds [OF den] have d1: "0 < bit_length den"
    and d2: "den < (2::int) ^ nat (bit_length den)"
    and d4: "(2::int) ^ nat (bit_length den - 1) \<le> den" by simp_all
  have n3: "(2::rat) ^ nat (bit_length num - 1) \<le> of_int num"
    using n2 by (metis of_int_le_iff of_int_numeral of_int_power)
  have n5: "of_int num < (2::rat) ^ nat (bit_length num)"
    using n4 by (metis of_int_less_iff of_int_numeral of_int_power)
  have d3: "of_int den < (2::rat) ^ nat (bit_length den)"
    using d2 by (metis of_int_less_iff of_int_numeral of_int_power)
  have d5: "(2::rat) ^ nat (bit_length den - 1) \<le> of_int den"
    using d4 by (metis of_int_le_iff of_int_numeral of_int_power)
  have "(2::rat) powi (?d - 1) = 2 powi ((bit_length num - 1) - bit_length den)"
    by (simp add: algebra_simps)
  also have "\<dots> = 2 powi (bit_length num - 1) / 2 powi (bit_length den)"
    by (rule power_int_diff) simp
  also have "\<dots> = 2 ^ nat (bit_length num - 1) / 2 ^ nat (bit_length den)"
    using n1 d1 by (simp add: power_int_nonneg_exp)
  also have "\<dots> < of_int num / of_int den"
    using n3 d3 den num by (intro frac_less2) simp_all
  finally have low: "2 powi (?d - 1) < x" using x by simp
  have "x = of_int num / of_int den" by (rule x)
  also have "\<dots> < 2 ^ nat (bit_length num) / 2 ^ nat (bit_length den - 1)"
    using n5 d5 den num by (intro frac_less) simp_all
  also have "\<dots> = 2 powi (bit_length num) / 2 powi (bit_length den - 1)"
    using n1 d1 by (simp add: power_int_nonneg_exp)
  also have "\<dots> = 2 powi (bit_length num - (bit_length den - 1))"
    by (rule power_int_diff [symmetric]) simp
  also have "\<dots> = 2 powi (?d + 1)" by (simp add: algebra_simps)
  finally have high: "x < 2 powi (?d + 1)" .
  have e: "ilog2 x = (if 2 powi ?d \<le> x then ?d else ?d - 1)"
    by (simp add: ilog2_def q Let_def)
  show "2 powi (ilog2 x) \<le> x" using e low by (simp split: if_splits)
  show "x < 2 powi (ilog2 x + 1)" using e high by (auto split: if_splits)
qed

lemma ilog2_less:
  assumes "0 < x" and "x < 2 powi n"
  shows "ilog2 x < n"
proof -
  from ilog2_bounds(1) [OF assms(1)] assms(2) have "(2::rat) powi (ilog2 x) < 2 powi n" by simp
  then show ?thesis
    by (metis not_le one_le_numeral power_int_increasing leD)
qed

lemma round_even_error:
  "\<bar>of_int (round_even q) - q\<bar> \<le> 1 / 2"
proof -
  have "of_int \<lfloor>q\<rfloor> \<le> q" "q < of_int \<lfloor>q\<rfloor> + 1" by linarith+
  then show ?thesis
    by (auto simp: round_even_def Let_def)
qed

lemma round_even_nonneg: "0 \<le> q \<Longrightarrow> 0 \<le> round_even q"
  by (auto simp: round_even_def Let_def)

lemma to_double_nonneg: "0 \<le> x \<Longrightarrow> 0 \<le> to_double x"
  by (simp add: to_double_def Let_def round_even_nonneg)

lemma to_double_error:
  assumes "0 \<le> x" and "x < 131072"
  shows "\<bar>to_double x - x\<bar> \<le> 1 / 137438953472"
proof (cases "x = 0")
  case True
  then show ?thesis by (simp add: to_double_def)
next
  case False
  with assms have pos: "0 < x" by simp
  have "x < 2 powi 17" using assms(2) by simp
  with pos have e: "ilog2 x < 17" by (rule ilog2_less)
  define ulp :: rat where "ulp = 2 powi (ilog2 x - 52)"
  have ulp_pos: "0 < ulp" by (simp add: ulp_def)
  have "ulp \<le> 2 powi (-36)"
    unfolding ulp_def using e by (intro power_int_increasing) simp_all
  then have ulp_le: "ulp \<le> 1 / 68719476736" by (simp add: power_int_minus_divide)
  have td: "to_double x = of_int (round_even (x / ulp)) * ulp"
    using False pos by (simp add: to_double_def ulp_def Let_def)
  have "to_double x - x = (of_int (round_even (x / ulp)) - x / ulp) * ulp"
    using ulp_pos by (simp add: td algebra_simps)
  then have "\<bar>to_double x - x\<bar> = \<bar>of_int (round_even (x / ulp)) - x / ulp\<bar> * ulp"
    using ulp_pos by (simp add: abs_mult)
  also have "\<dots> \<le> 1 / 2 * ulp"
    using ulp_pos round_even_error [of "x / ulp"] by (intro mult_right_mono) simp_all
  also have "\<dots> \<le> 1 / 137438953472" using ulp_le by simp
  finally show ?thesis .
qed

lemma double_constants:
  "to_double (30 / 100) = 5404319552844595 / 18014398509481984"
  "to_double (59 / 100) = 5314247560297185 / 9007199254740992"
  "to_double (11 / 100) = 7926335344172073 / 72057594037927936"
  by code_simp+

lemma to_double_interval:
  assumes "0 \<le> x" and "x < 131072"
  shows "0 \<le> to_double x" and "x - 1 / 137438953472 \<le> to_double x"
    and "to_double x \<le> x + 1 / 137438953472"
  using to_double_error [OF assms] to_double_nonneg [OF assms(1)] by linarith+

lemma weighted_sum_error:
  fixes A B C :: rat
  assumes "0 \<le> A" "A \<le> 65025" "0 \<le> B" "B \<le> 65025" "0 \<le> C" "C \<le> 65025"
  shows "\<bar>to_double (to_double (to_double (to_double A * (5404319552844595 / 18014398509481984))
                              + to_double (to_double B * (5314247560297185 / 9007199254740992)))
                   + to_double (to_double C * (7926335344172073 / 72057594037927936)))
          - (30 / 100 * A + 59 / 100 * B + 11 / 100 * C)\<bar> < 1 / 200"
proof -
  define A' where "A' = to_double A"
  define B' where "B' = to_double B"
  define C' where "C' = to_double C"
  define P1 where "P1 = to_double (A' * (5404319552844595 / 18014398509481984))"
  define P2 where "P2 = to_double (B' * (5314247560297185 / 9007199254740992))"
  define P3 where "P3 = to_double (C' * (7926335344172073 / 72057594037927936))"
  define S1 where "S1 = to_double (P1 + P2)"
  define S2 where "S2 = to_double (S1 + P3)"
  have A': "0 \<le> A'" "A - 1 / 137438953472 \<le> A'" "A' \<le> A + 1 / 137438953472"
    unfolding A'_def using assms by (intro to_double_interval; simp)+
  have B': "0 \<le> B'" "B - 1 / 137438953472 \<le> B'" "B' \<le> B + 1 / 137438953472"
    unfolding B'_def using assms by (intro to_double_interval; simp)+
  have C': "0 \<le> C'" "C - 1 / 137438953472 \<le> C'" "C' \<le> C + 1 / 137438953472"
    unfolding C'_def using assms by (intro to_double_interval; simp)+
  have P1: "0 \<le> P1" "A' * (5404319552844595 / 18014398509481984) - 1 / 137438953472 \<le> P1"
      "P1 \<le> A' * (5404319552844595 / 18014398509481984) + 1 / 137438953472"
    unfolding P1_def using A' assms by (intro to_double_interval; simp)+
  have P2: "0 \<le> P2" "B' * (5314247560297185 / 9007199254740992) - 1 / 137438953472 \<le> P2"
      "P2 \<le> B' * (5314247560297185 / 9007199254740992) + 1 / 137438953472"
    unfolding P2_def using B' assms by (intro to_double_interval; simp)+
  have P3: "0 \<le> P3" "C' * (7926335344172073 / 72057594037927936) - 1 / 137438953472 \<le> P3"
      "P3 \<le> C' * (7926335344172073 / 72057594037927936) + 1 / 137438953472"
    unfolding P3_def using C' assms by (intro to_double_interval; simp)+
  have S1: "0 \<le> S1" "P1 + P2 - 1 / 137438953472 \<le> S1" "S1 \<le> P1 + P2 + 1 / 137438953472"
    unfolding S1_def using P1 P2 A' B' assms by (intro to_double_interval; simp)+
  have S2: "S1 + P3 - 1 / 137438953472 \<le> S2" "S2 \<le> S1 + P3 + 1 / 137438953472"
    unfolding S2_def using S1 P1 P2 P3 A' B' C' assms by (intro to_double_interval; simp)+
  have "\<bar>S2 - (30 / 100 * A + 59 / 100 * B + 11 / 100 * C)\<bar> < 1 / 200"
    using S2 S1 P1 P2 P3 A' B' C' assms by linarith
  then show ?thesis
    by (simp add: S2_def S1_def P1_def P2_def P3_def A'_def B'_def C'_def)
qed

lemma square_difference_bounds:
  fixes x y :: uint8_t
  shows "0 \<le> (uint x - uint y) * (uint x - uint y)"
    and "(uint x - uint y) * (uint x - uint y) \<le> 65025"
proof -
  have "uint x < 256" "uint y < 256" using uint_bounded [of x] uint_bounded [of y] by simp_all
  moreover have "0 \<le> uint x" "0 \<le> uint y" by simp_all
  ultimately have d: "\<bar>uint x - uint y\<bar> \<le> 255" by linarith
  show "0 \<le> (uint x - uint y) * (uint x - uint y)" by simp
  have "(uint x - uint y) * (uint x - uint y) = \<bar>uint x - uint y\<bar> * \<bar>uint x - uint y\<bar>"
    by simp
  also have "\<dots> \<le> 255 * 255"
    using d by (intro mult_mono) simp_all
  finally show "(uint x - uint y) * (uint x - uint y) \<le> 65025" by simp
qed

lemma distance_error:
  "\<bar>distance p_color color - weighted_distance p_color color\<bar> < 1 / 200"
proof -
  let ?R = "(uint (r p_color) - uint (r color)) * (uint (r p_color) - uint (r color))"
  let ?G = "(uint (g p_color) - uint (g color)) * (uint (g p_color) - uint (g color))"
  let ?B = "(uint (b p_color) - uint (b color)) * (uint (b p_color) - uint (b color))"
  have R: "0 \<le> (of_int ?R :: rat)" "(of_int ?R :: rat) \<le> 65025"
    using square_difference_bounds [of "r p_color" "r color"]
    by (simp, metis of_int_le_iff of_int_numeral)
  have G: "0 \<le> (of_int ?G :: rat)" "(of_int ?G :: rat) \<le> 65025"
    using square_difference_bounds [of "g p_color" "g color"]
    by (simp, metis of_int_le_iff of_int_numeral)
  have B: "0 \<le> (of_int ?B :: rat)" "(of_int ?B :: rat) \<le> 65025"
    using square_difference_bounds [of "b p_color" "b color"]
    by (simp, metis of_int_le_iff of_int_numeral)
  show ?thesis
    unfolding distance_def dmul_def dadd_def double_constants weighted_distance_def
    by (rule weighted_sum_error [OF R G B])
qed

lemma weighted_distance_gap:
  assumes "weighted_distance p color < weighted_distance q color"
  shows "weighted_distance p color + 1 / 100 \<le> weighted_distance q color"
proof -
  define N where "N p' =
      30 * ((uint (r p') - uint (r color)) * (uint (r p') - uint (r color)))
    + 59 * ((uint (g p') - uint (g color)) * (uint (g p') - uint (g color)))
    + 11 * ((uint (b p') - uint (b color)) * (uint (b p') - uint (b color)))" for p' :: SDL_Color
  have wd: "weighted_distance p' color = of_int (N p') / 100" for p'
    by (simp add: weighted_distance_def N_def)
  from assms have "(of_int (N p) :: rat) < of_int (N q)" by (simp add: wd)
  then have "N p + 1 \<le> N q" by simp
  then have "(of_int (N p + 1) :: rat) \<le> of_int (N q)" by (simp only: of_int_le_iff)
  then show ?thesis by (simp add: wd)
qed

lemma nearest_computed_nearest_exact:
  assumes "distance p color \<le> distance q color"
  shows "weighted_distance p color \<le> weighted_distance q color"
proof (rule ccontr)
  assume "\<not> weighted_distance p color \<le> weighted_distance q color"
  then have "weighted_distance q color + 1 / 100 \<le> weighted_distance p color"
    by (intro weighted_distance_gap) simp
  with distance_error [of p color] distance_error [of q color] assms
  show False by linarith
qed

text \<open>
  Equal exact sums need not give equal computed distances: from the colour (0, 0, 0) the
  entries (10, 0, 11) and (12, 0, 1) both have the exact sum 43.31, and the second has the
  smaller computed distance.
\<close>

lemma equal_sums_round_apart:
  "weighted_distance \<lparr>r = 10, g = 0, b = 11, a = 255\<rparr> \<lparr>r = 0, g = 0, b = 0, a = 0\<rparr>
     = weighted_distance \<lparr>r = 12, g = 0, b = 1, a = 255\<rparr> \<lparr>r = 0, g = 0, b = 0, a = 0\<rparr>
   \<and> distance \<lparr>r = 12, g = 0, b = 1, a = 255\<rparr> \<lparr>r = 0, g = 0, b = 0, a = 0\<rparr>
     < distance \<lparr>r = 10, g = 0, b = 11, a = 255\<rparr> \<lparr>r = 0, g = 0, b = 0, a = 0\<rparr>"
  by code_simp

section \<open>The nearest palette entry\<close>

lemma closest_loop_invariant:
  assumes "length palette \<le> 256"
    and "k < i" and "i \<le> length palette"
    and "closestIndex = of_nat k"
    and "lowestDistance = Finite (distance (palette ! k) color)"
    and "\<forall>j<i. distance (palette ! k) color \<le> distance (palette ! j) color"
    and "\<forall>j<k. distance (palette ! k) color < distance (palette ! j) color"
  shows "\<exists>m<length palette.
           closest_loop palette color i closestIndex lowestDistance = of_nat m
         \<and> (\<forall>j<length palette. distance (palette ! m) color \<le> distance (palette ! j) color)
         \<and> (\<forall>j<m. distance (palette ! m) color < distance (palette ! j) color)"
  using assms
proof (induction palette color i closestIndex lowestDistance arbitrary: k
       rule: closest_loop.induct)
  case (1 palette color i closestIndex lowestDistance)
  let ?d = "\<lambda>j. distance (palette ! j) color"
  show ?case
  proof (cases "i < length palette")
    case False
    with "1.prems" have "i = length palette" by simp
    moreover have "closest_loop palette color i closestIndex lowestDistance = closestIndex"
      using False by (simp add: closest_loop.simps)
    ultimately show ?thesis using "1.prems" by auto
  next
    case True
    show ?thesis
    proof (cases "less_lowest (?d i) lowestDistance")
      case less: True
      then have lt: "?d i < ?d k" using "1.prems" by simp
      have step: "closest_loop palette color i closestIndex lowestDistance
                    = closest_loop palette color (i + 1) (of_nat i) (Finite (?d i))"
        using True less by (subst closest_loop.simps) simp
      have "\<forall>j<i + 1. ?d i \<le> ?d j"
      proof (intro allI impI)
        fix j assume "j < i + 1"
        then consider "j < i" | "j = i" by linarith
        then show "?d i \<le> ?d j"
        proof cases
          case 1
          with "1.prems" have "?d k \<le> ?d j" by simp
          with lt show ?thesis by simp
        next
          case 2
          then show ?thesis by simp
        qed
      qed
      moreover have "\<forall>j<i. ?d i < ?d j"
      proof (intro allI impI)
        fix j assume "j < i"
        with "1.prems" have "?d k \<le> ?d j" by simp
        with lt show "?d i < ?d j" by simp
      qed
      ultimately show ?thesis
        unfolding step
        using "1.IH"(1) [OF True less, of i] True "1.prems"(1) by simp
    next
      case nless: False
      then have ge: "?d k \<le> ?d i" using "1.prems" by simp
      have step: "closest_loop palette color i closestIndex lowestDistance
                    = closest_loop palette color (i + 1) closestIndex lowestDistance"
        using True nless by (subst closest_loop.simps) simp
      have "\<forall>j<i + 1. ?d k \<le> ?d j"
      proof (intro allI impI)
        fix j assume "j < i + 1"
        then consider "j < i" | "j = i" by linarith
        then show "?d k \<le> ?d j"
          using "1.prems" ge by cases auto
      qed
      then show ?thesis
        unfolding step
        using "1.IH"(2) [OF True nless, of k] True "1.prems" by simp
    qed
  qed
qed

lemma findClosestPaletteEntry_argmin:
  assumes "0 < length palette" and "length palette \<le> 256"
  shows "\<exists>m<length palette.
           findClosestPaletteEntry palette color = of_nat m
         \<and> (\<forall>j<length palette. distance (palette ! m) color \<le> distance (palette ! j) color)
         \<and> (\<forall>j<m. distance (palette ! m) color < distance (palette ! j) color)"
proof -
  have "findClosestPaletteEntry palette color
          = closest_loop palette color (0 + 1) (of_nat 0) (Finite (distance (palette ! 0) color))"
    unfolding findClosestPaletteEntry_def using assms(1)
    by (subst closest_loop.simps) simp
  moreover have "\<exists>m<length palette.
      closest_loop palette color (0 + 1) (of_nat 0) (Finite (distance (palette ! 0) color)) = of_nat m
      \<and> (\<forall>j<length palette. distance (palette ! m) color \<le> distance (palette ! j) color)
      \<and> (\<forall>j<m. distance (palette ! m) color < distance (palette ! j) color)"
    using assms by (intro closest_loop_invariant [where k = 0]) (auto simp: Suc_le_eq)
  ultimately show ?thesis by simp
qed

lemma distance_nonneg: "0 \<le> distance p_color color"
  unfolding distance_def dmul_def dadd_def
  by (intro to_double_nonneg add_nonneg_nonneg mult_nonneg_nonneg) simp_all

lemma distance_same_channels:
  assumes "r p_color = r color" "g p_color = g color" "b p_color = b color"
  shows "distance p_color color = 0"
  using assms by (simp add: distance_def dmul_def dadd_def to_double_def)

lemma findClosestPaletteEntry_first_colour:
  assumes "0 < length palette" and "length palette \<le> 256"
    and "distance (palette ! 0) color = 0"
  shows "findClosestPaletteEntry palette color = 0"
proof -
  from findClosestPaletteEntry_argmin [OF assms(1,2), of color]
  obtain m where m: "findClosestPaletteEntry palette color = of_nat m"
      "\<forall>j<m. distance (palette ! m) color < distance (palette ! j) color"
    by auto
  have "m = 0"
  proof (rule ccontr)
    assume "m \<noteq> 0"
    with m(2) have "distance (palette ! m) color < distance (palette ! 0) color" by simp
    with assms(3) distance_nonneg [of "palette ! m" color] show False by simp
  qed
  with m(1) show ?thesis by simp
qed

lemma unat_of_nat_index: "m < 256 \<Longrightarrow> unat (of_nat m :: uint8_t) = m"
  by (simp add: unat_of_nat)

lemma length_fold_update:
  "length (fold (\<lambda>i d. d[i := F i d]) xs dst) = length dst"
  by (induction xs arbitrary: dst) simp_all

lemma length_copy_pixels:
  "length (copy_pixels palette source_pixels n dest_pixels) = length dest_pixels"
  unfolding copy_pixels_def by (rule length_fold_update)

lemma copy_pixels_map:
  assumes "length dest_pixels = n"
  shows "copy_pixels palette source_pixels n dest_pixels
           = map (\<lambda>i. findClosestPaletteEntry palette (source_color source_pixels i)) [0..<n]"
  unfolding copy_pixels_def using assms by (simp add: fold_update_prefix)

lemma copy_pixels_nth:
  assumes "i < length dest_pixels"
  shows "copy_pixels palette source_pixels (length dest_pixels) dest_pixels ! i
           = findClosestPaletteEntry palette
               \<lparr>r = source_pixels ! (i * 3 + 2), g = source_pixels ! (i * 3 + 1),
                b = source_pixels ! (i * 3), a = 0\<rparr>"
  using assms by (simp add: copy_pixels_map source_color_def)

lemma sample_distances:
  "distance \<lparr>r = 0, g = 0, b = 0, a = 255\<rparr> \<lparr>r = 10, g = 10, b = 10, a = 0\<rparr>
     < distance \<lparr>r = 255, g = 255, b = 255, a = 255\<rparr> \<lparr>r = 10, g = 10, b = 10, a = 0\<rparr>"
  by code_simp

text \<open>
  Claim C1, as amended.  With a palette of 256 entries, for every pixel colour the index
  returned by \<open>findClosestPaletteEntry\<close> is that of an entry that minimises the weighted sum
  \<open>0.30 * dR^2 + 0.59 * dG^2 + 0.11 * dB^2\<close> over all 256 entries, both as the exact sum
  and as the function computes it (in double precision, every product and sum rounded, no
  fused multiply-add): no entry is strictly closer than the returned one.  Among the entries
  whose computed distance is minimal the lowest index is returned: every entry at a lower
  index has a strictly greater computed distance.  Entries with equal exact sums can differ
  in computed distance, and the tie-break is on the computed value.  The copy loop of
  \<open>convertSurfaceToIndex\<close> keeps the length of the destination and writes at every index
  \<open>i\<close> the entry so found for the colour whose blue, green and red bytes are read at
  \<open>3 * i\<close>, \<open>3 * i + 1\<close> and \<open>3 * i + 2\<close>.
\<close>

theorem findClosestPaletteEntry_nearest:
  assumes "length palette = 256"
  shows "unat (findClosestPaletteEntry palette color) < 256
       \<and> (\<forall>j<256. distance (palette ! unat (findClosestPaletteEntry palette color)) color
                       \<le> distance (palette ! j) color)
       \<and> (\<forall>j<unat (findClosestPaletteEntry palette color).
             distance (palette ! unat (findClosestPaletteEntry palette color)) color
               < distance (palette ! j) color)
       \<and> (\<forall>j<256. weighted_distance (palette ! unat (findClosestPaletteEntry palette color)) color
                       \<le> weighted_distance (palette ! j) color)
       \<and> length (copy_pixels palette source_pixels (length dest_pixels) dest_pixels)
           = length dest_pixels
       \<and> (\<forall>i<length dest_pixels.
             copy_pixels palette source_pixels (length dest_pixels) dest_pixels ! i
               = findClosestPaletteEntry palette
                   \<lparr>r = source_pixels ! (i * 3 + 2), g = source_pixels ! (i * 3 + 1),
                    b = source_pixels ! (i * 3), a = 0\<rparr>)"
proof -
  from assms obtain m where m: "m < 256"
      "findClosestPaletteEntry palette color = of_nat m"
      "\<forall>j<256. distance (palette ! m) color \<le> distance (palette ! j) color"
      "\<forall>j<m. distance (palette ! m) color < distance (palette ! j) color"
    using findClosestPaletteEntry_argmin [of palette color] by auto
  then have k: "unat (findClosestPaletteEntry palette color) = m"
    by (simp add: unat_of_nat_index)
  from m(3) have "\<forall>j<256. weighted_distance (palette ! m) color \<le> weighted_distance (palette ! j) color"
    by (auto intro: nearest_computed_nearest_exact)
  with m k show ?thesis by (simp add: copy_pixels_nth length_copy_pixels)
qed

text \<open>
  On the sample palette the colour (10, 10, 10) is nearer to black than to white, so index 0
  is returned and written.
\<close>

theorem findClosestPaletteEntry_nearest_witness:
  "length sample_palette = 256
   \<and> findClosestPaletteEntry sample_palette \<lparr>r = 10, g = 10, b = 10, a = 0\<rparr> = 0
   \<and> weighted_distance (sample_palette ! 0) \<lparr>r = 10, g = 10, b = 10, a = 0\<rparr>
       \<le> weighted_distance (sample_palette ! 255) \<lparr>r = 10, g = 10, b = 10, a = 0\<rparr>
   \<and> copy_pixels sample_palette [10, 10, 10] 1 [7] = [0]"
proof -
  let ?c = "\<lparr>r = 10, g = 10, b = 10, a = 0\<rparr> :: SDL_Color"
  let ?k = "unat (findClosestPaletteEntry sample_palette ?c)"
  let ?out = "copy_pixels sample_palette [10, 10, 10] 1 [7]"
  have len: "length sample_palette = 256" by (simp add: sample_palette_def)
  from findClosestPaletteEntry_nearest [OF len, of ?c "[10, 10, 10]" "[7]"]
  have k: "?k < 256" and le: "distance (sample_palette ! ?k) ?c \<le> distance (sample_palette ! 0) ?c"
    and ex: "\<forall>j<256. weighted_distance (sample_palette ! ?k) ?c \<le> weighted_distance (sample_palette ! j) ?c"
    and out: "length ?out = 1" "?out ! 0 = findClosestPaletteEntry sample_palette ?c"
    by simp_all
  have "?k = 0"
  proof (rule ccontr)
    assume "?k \<noteq> 0"
    with k have "sample_palette ! ?k = \<lparr>r = 255, g = 255, b = 255, a = 255\<rparr>"
      by (simp add: sample_palette_def nth_Cons')
    with le sample_distances show False by (simp add: sample_palette_def)
  qed
  then have f: "findClosestPaletteEntry sample_palette ?c = 0"
    by (simp add: unat_eq_0)
  moreover from \<open>?k = 0\<close> ex
  have "weighted_distance (sample_palette ! 0) ?c \<le> weighted_distance (sample_palette ! 255) ?c"
    by simp
  moreover from out f have "?out = [0]"
    by (cases ?out) simp_all
  ultimately show ?thesis using len by simp
qed

text \<open>
  Claim C1 as stated fails for the exact weighted sum: on the palette with (10, 0, 11) at
  index 0 and (12, 0, 1) at every other index, the colour (0, 0, 0) has the same exact sum
  43.31 to the entries at index 0 and index 1, both achieve the minimum, and index 1 is
  returned, not the lowest index 0.
\<close>

theorem equal_sums_later_index_returned:
  "findClosestPaletteEntry tie_palette \<lparr>r = 0, g = 0, b = 0, a = 0\<rparr> = 1
   \<and> weighted_distance (tie_palette ! 0) \<lparr>r = 0, g = 0, b = 0, a = 0\<rparr> = 4331 / 100
   \<and> weighted_distance (tie_palette ! 1) \<lparr>r = 0, g = 0, b = 0, a = 0\<rparr> = 4331 / 100"
proof (intro conjI)
  let ?z = "\<lparr>r = 0, g = 0, b = 0, a = 0\<rparr> :: SDL_Color"
  let ?p0 = "\<lparr>r = 10, g = 0, b = 11, a = 255\<rparr> :: SDL_Color"
  let ?p1 = "\<lparr>r = 12, g = 0, b = 1, a = 255\<rparr> :: SDL_Color"
  have p0: "tie_palette ! 0 = ?p0" by (simp add: tie_palette_def)
  have p1: "tie_palette ! j = ?p1" if "0 < j" "j < 256" for j
    using that by (simp add: tie_palette_def nth_Cons')
  have lt: "distance ?p1 ?z < distance ?p0 ?z" using equal_sums_round_apart by simp
  obtain m where m: "m < 256" "findClosestPaletteEntry tie_palette ?z = of_nat m"
      "\<forall>j<256. distance (tie_palette ! m) ?z \<le> distance (tie_palette ! j) ?z"
      "\<forall>j<m. distance (tie_palette ! m) ?z < distance (tie_palette ! j) ?z"
    using findClosestPaletteEntry_argmin [of tie_palette ?z]
    by (auto simp: tie_palette_def)
  have "m \<noteq> 0"
  proof
    assume "m = 0"
    with m(3) have "distance (tie_palette ! 0) ?z \<le> distance (tie_palette ! 1) ?z" by simp
    with lt show False by (simp add: p0 p1)
  qed
  moreover have "\<not> 1 < m"
  proof
    assume "1 < m"
    with m(4) have "distance (tie_palette ! m) ?z < distance (tie_palette ! 1) ?z" by simp
    moreover from \<open>1 < m\<close> m(1) have "tie_palette ! m = ?p1" by (intro p1) simp_all
    ultimately show False by (simp add: p1)
  qed
  ultimately have "m = 1" by linarith
  with m(2) show "findClosestPaletteEntry tie_palette ?z = 1" by simp
  show "weighted_distance (tie_palette ! 0) ?z = 4331 / 100"
    by (simp add: p0 weighted_distance_def)
  show "weighted_distance (tie_palette ! 1) ?z = 4331 / 100"
    by (simp add: p1 weighted_distance_def)
qed

section \<open>convertSurfaceToIndex: errors and output\<close>

text \<open>
  Claim C7, as amended.  On two existing surfaces \<open>convertSurfaceToIndex\<close> fails with the
  source format error exactly when the source does not have 24 bits per pixel; with the
  destination format error exactly when the source has 24 and the destination does not have 8
  bits per pixel; with the resolution error exactly when both formats are right and the pixel
  counts differ.  Whenever it fails the destination is as it was.  It succeeds exactly when
  the source has 24 bits, the destination 8 bits, the pixel counts agree and both surfaces can
  be locked.
\<close>

theorem convertSurfaceToIndex_errors:
  "(fst (convertSurfaceToIndex palette env (Some src) (Some dst)) = Some Source_Not_RGB888
      \<longleftrightarrow> BitsPerPixel src \<noteq> 24)
   \<and> (fst (convertSurfaceToIndex palette env (Some src) (Some dst)) = Some Dest_Not_Index8
      \<longleftrightarrow> BitsPerPixel src = 24 \<and> BitsPerPixel dst \<noteq> 8)
   \<and> (fst (convertSurfaceToIndex palette env (Some src) (Some dst)) = Some Resolutions_Not_Equal
      \<longleftrightarrow> BitsPerPixel src = 24 \<and> BitsPerPixel dst = 8 \<and> w src * h src \<noteq> w dst * h dst)
   \<and> (fst (convertSurfaceToIndex palette env source dest) \<noteq> None
      \<longrightarrow> snd (convertSurfaceToIndex palette env source dest) = dest)
   \<and> (fst (convertSurfaceToIndex palette env (Some src) (Some dst)) = None
      \<longleftrightarrow> BitsPerPixel src = 24 \<and> BitsPerPixel dst = 8 \<and> w src * h src = w dst * h dst
          \<and> lock_source_ok env \<and> lock_dest_ok env)"
proof (intro conjI)
  show "fst (convertSurfaceToIndex palette env source dest) \<noteq> None
      \<longrightarrow> snd (convertSurfaceToIndex palette env source dest) = dest"
    by (simp add: convertSurfaceToIndex_def Let_def split: option.splits)
qed (simp_all add: convertSurfaceToIndex_def Let_def)

theorem convertSurfaceToIndex_errors_witness:
  "fst (convertSurfaceToIndex sample_palette all_ok (Some argb_bmp) (Some (new_index8_surface 2 1)))
     = Some Source_Not_RGB888
   \<and> snd (convertSurfaceToIndex sample_palette all_ok (Some argb_bmp) (Some (new_index8_surface 2 1)))
     = Some (new_index8_surface 2 1)
   \<and> BitsPerPixel argb_bmp \<noteq> 24
   \<and> fst (convertSurfaceToIndex sample_palette all_ok (Some dark_grey_bmp) (Some (new_index8_surface 1 1)))
     = None
   \<and> BitsPerPixel dark_grey_bmp = 24 \<and> BitsPerPixel (new_index8_surface 1 1) = 8
   \<and> w dark_grey_bmp * h dark_grey_bmp = w (new_index8_surface 1 1) * h (new_index8_surface 1 1)
   \<and> lock_source_ok all_ok \<and> lock_dest_ok all_ok"
  using convertSurfaceToIndex_errors [of sample_palette all_ok argb_bmp "new_index8_surface 2 1"
          "Some argb_bmp" "Some (new_index8_surface 2 1)"]
        convertSurfaceToIndex_errors [of sample_palette all_ok dark_grey_bmp "new_index8_surface 1 1"
          "Some dark_grey_bmp" "Some (new_index8_surface 1 1)"]
  by (simp add: argb_bmp_def dark_grey_bmp_def new_index8_surface_def all_ok_def)

text \<open>
  Claim C7 as stated fails: for a 32-bit source of 2 pixels and an 8-bit destination of 1
  pixel the pixel counts differ, and the failure reported is the source format error, not the
  resolution error.
\<close>

theorem dimension_check_after_format_check:
  "\<not> (fst (convertSurfaceToIndex sample_palette all_ok (Some argb_bmp) (Some (new_index8_surface 1 1)))
         = Some Resolutions_Not_Equal
       \<longleftrightarrow> w argb_bmp * h argb_bmp \<noteq> w (new_index8_surface 1 1) * h (new_index8_surface 1 1))"
  by (simp add: convertSurfaceToIndex_def argb_bmp_def new_index8_surface_def)

section \<open>State transitions\<close>

lemma updateDarkLevel_None:
  "render_surface s = None \<Longrightarrow> updateDarkLevel s = s"
  by (simp add: updateDarkLevel_def)

lemma updateDarkLevel_Some:
  assumes "render_surface s = Some rs" and "length (pixels rs) = w rs * h rs"
  shows "updateDarkLevel s =
           s\<lparr>lit_surface := Some \<lparr>w = w rs, h = h rs, BitsPerPixel = 8,
                                   pixels = map (dark_pixel (darkLevel s)) (pixels rs)\<rparr>,
             render_texture := Some \<lparr>w = w rs, h = h rs, BitsPerPixel = 8,
                                      pixels = map (dark_pixel (darkLevel s)) (pixels rs)\<rparr>\<rparr>"
  using assms
  by (simp add: updateDarkLevel_def new_index8_surface_def Let_def dark_loop_map)

lemma updateDarkLevel_frame:
  "darkLevel (updateDarkLevel s) = darkLevel s"
  "underWater (updateDarkLevel s) = underWater s"
  "render_surface (updateDarkLevel s) = render_surface s"
  "exitRequested (updateDarkLevel s) = exitRequested s"
  by (simp_all add: updateDarkLevel_def Let_def split: option.splits)

lemma updateDarkLevel_lit:
  "render_surface s = Some rs \<Longrightarrow> lit_surface (updateDarkLevel s) \<noteq> None"
  by (simp add: updateDarkLevel_def Let_def)

lemma updateUnderwater_None:
  "render_surface s = None \<Longrightarrow> updateUnderwater s = Some s"
  by (simp add: updateUnderwater_def)

lemma updateUnderwater_Some:
  assumes "render_surface s = Some rs" and "lit_surface s = Some lit"
    and "length (pixels lit) = w lit * h lit"
  shows "updateUnderwater s =
           Some (s\<lparr>lit_surface := Some (lit\<lparr>pixels := map (underwater_pixel (underWater s)) (pixels lit)\<rparr>),
                  render_texture := Some (lit\<lparr>pixels := map (underwater_pixel (underWater s)) (pixels lit)\<rparr>)\<rparr>)"
  using assms by (simp add: updateUnderwater_def Let_def underwater_loop_map)

lemma updateUnderwater_total:
  "render_surface s = None \<or> lit_surface s \<noteq> None \<Longrightarrow>
   \<exists>s'. updateUnderwater s = Some s' \<and> darkLevel s' = darkLevel s \<and> underWater s' = underWater s
        \<and> render_surface s' = render_surface s \<and> exitRequested s' = exitRequested s"
  by (auto simp: updateUnderwater_def Let_def split: option.splits)

lemma relight_total:
  "\<exists>s'. updateUnderwater (updateDarkLevel s) = Some s' \<and> darkLevel s' = darkLevel s
        \<and> underWater s' = underWater s \<and> render_surface s' = render_surface s
        \<and> exitRequested s' = exitRequested s"
proof -
  have "render_surface (updateDarkLevel s) = None \<or> lit_surface (updateDarkLevel s) \<noteq> None"
    by (cases "render_surface s") (simp_all add: updateDarkLevel_frame updateDarkLevel_lit)
  from updateUnderwater_total [OF this] show ?thesis
    by (simp add: updateDarkLevel_frame)
qed

lemma relight_Some:
  assumes "render_surface s = Some rs" and "length (pixels rs) = w rs * h rs"
  shows "updateUnderwater (updateDarkLevel s) =
           Some (s\<lparr>lit_surface := Some \<lparr>w = w rs, h = h rs, BitsPerPixel = 8,
                      pixels = map (\<lambda>v. underwater_pixel (underWater s) (dark_pixel (darkLevel s) v)) (pixels rs)\<rparr>,
                    render_texture := Some \<lparr>w = w rs, h = h rs, BitsPerPixel = 8,
                      pixels = map (\<lambda>v. underwater_pixel (underWater s) (dark_pixel (darkLevel s) v)) (pixels rs)\<rparr>\<rparr>)"
proof -
  let ?lit = "\<lparr>w = w rs, h = h rs, BitsPerPixel = 8,
                pixels = map (dark_pixel (darkLevel s)) (pixels rs)\<rparr>"
  let ?s1 = "s\<lparr>lit_surface := Some ?lit, render_texture := Some ?lit\<rparr>"
  have "updateDarkLevel s = ?s1" using assms by (rule updateDarkLevel_Some)
  moreover have "updateUnderwater ?s1 =
      Some (?s1\<lparr>lit_surface := Some (?lit\<lparr>pixels := map (underwater_pixel (underWater ?s1)) (pixels ?lit)\<rparr>),
                render_texture := Some (?lit\<lparr>pixels := map (underwater_pixel (underWater ?s1)) (pixels ?lit)\<rparr>)\<rparr>)"
    using assms by (intro updateUnderwater_Some [where rs = rs]) simp_all
  ultimately show ?thesis by (simp add: o_def)
qed

lemma loadNewBMP_frame:
  "darkLevel (snd (loadNewBMP palette env temp s)) = darkLevel s"
  "underWater (snd (loadNewBMP palette env temp s)) = underWater s"
  "lit_surface (snd (loadNewBMP palette env temp s)) = lit_surface s"
  "exitRequested (snd (loadNewBMP palette env temp s)) = exitRequested s"
  by (simp_all add: loadNewBMP_def renderNewSurface_def Let_def split: option.splits prod.splits)

lemma handle_event_total:
  "\<exists>s'. handle_event palette e s = Some s'
        \<and> (0 \<le> darkLevel s \<and> darkLevel s \<le> 8 \<longrightarrow> 0 \<le> darkLevel s' \<and> darkLevel s' \<le> 8)"
proof (cases e)
  case SDL_QUIT
  then show ?thesis by simp
next
  case (SDL_DROPFILE temp env)
  then show ?thesis by (simp add: loadNewBMP_frame)
next
  case (SDL_KEYDOWN sc)
  show ?thesis
  proof (cases sc)
    case SDL_SCANCODE_UP
    from relight_total [of "if darkLevel s > 0 then s\<lparr>darkLevel := darkLevel s - 1\<rparr> else s"]
    show ?thesis unfolding SDL_KEYDOWN SDL_SCANCODE_UP by (auto split: if_splits)
  next
    case SDL_SCANCODE_DOWN
    from relight_total [of "if darkLevel s < 8 then s\<lparr>darkLevel := darkLevel s + 1\<rparr> else s"]
    show ?thesis unfolding SDL_KEYDOWN SDL_SCANCODE_DOWN by (auto split: if_splits)
  next
    case SDL_SCANCODE_SPACE
    from relight_total [of "s\<lparr>underWater := \<not> underWater s\<rparr>"]
    show ?thesis unfolding SDL_KEYDOWN SDL_SCANCODE_SPACE by auto
  next
    case SDL_SCANCODE_OTHER
    then show ?thesis using SDL_KEYDOWN by simp
  qed
next
  case SDL_OTHER
  then show ?thesis by simp
qed

lemma handleEvents_range:
  "0 \<le> darkLevel s \<Longrightarrow> darkLevel s \<le> 8 \<Longrightarrow>
   \<exists>s'. handleEvents palette es s = Some s' \<and> 0 \<le> darkLevel s' \<and> darkLevel s' \<le> 8"
proof (induction es arbitrary: s)
  case Nil
  then show ?case by simp
next
  case (Cons e es)
  from handle_event_total [of palette e s] Cons.prems
  obtain s1 where s1: "handle_event palette e s = Some s1" "0 \<le> darkLevel s1" "darkLevel s1 \<le> 8"
    by auto
  from Cons.IH [OF s1(2,3)] s1(1) show ?case by simp
qed

lemma loadNewBMP_decode_failure:
  "loadNewBMP palette env None s = (1, s)"
  by (simp add: loadNewBMP_def)

lemma renderNewSurface_success:
  assumes "create_surface_ok env" "set_palette_ok env" "lock_source_ok env" "lock_dest_ok env"
    "create_texture_ok env" "set_logical_size_ok env" "render_copy_ok env"
    and "BitsPerPixel surface = 24"
  shows "renderNewSurface palette env surface s =
           (0, s\<lparr>render_surface := Some \<lparr>w = w surface, h = h surface, BitsPerPixel = 8,
                     pixels = map (\<lambda>i. findClosestPaletteEntry palette (source_color (pixels surface) i))
                                  [0..<w surface * h surface]\<rparr>,
                  render_texture := Some \<lparr>w = w surface, h = h surface, BitsPerPixel = 8,
                     pixels = map (\<lambda>i. findClosestPaletteEntry palette (source_color (pixels surface) i))
                                  [0..<w surface * h surface]\<rparr>,
                  logical_size := (w surface, h surface)\<rparr>)"
  using assms
  by (simp add: renderNewSurface_def convertSurfaceToIndex_def new_index8_surface_def Let_def
        copy_pixels_map)

lemma renderNewSurface_wrong_depth:
  assumes "create_surface_ok env" "set_palette_ok env" and "BitsPerPixel surface \<noteq> 24"
  shows "renderNewSurface palette env surface s =
           (1, s\<lparr>render_surface := Some (new_index8_surface (w surface) (h surface))\<rparr>)"
  using assms
  by (simp add: renderNewSurface_def convertSurfaceToIndex_def new_index8_surface_def Let_def)

lemma drop_first_colour:
  assumes "length palette = 256"
  shows "handle_event palette (SDL_DROPFILE (Some (one_pixel_bmp (palette ! 0))) all_ok) s
           = Some (s\<lparr>render_surface := Some \<lparr>w = 1, h = 1, BitsPerPixel = 8, pixels = [0]\<rparr>,
                     render_texture := Some \<lparr>w = 1, h = 1, BitsPerPixel = 8, pixels = [0]\<rparr>,
                     logical_size := (1, 1)\<rparr>)"
proof -
  have "distance (palette ! 0) (source_color (pixels (one_pixel_bmp (palette ! 0))) 0) = 0"
    by (rule distance_same_channels) (simp_all add: source_color_def one_pixel_bmp_def)
  then have "findClosestPaletteEntry palette (source_color (pixels (one_pixel_bmp (palette ! 0))) 0) = 0"
    using assms by (intro findClosestPaletteEntry_first_colour) simp_all
  then have "renderNewSurface palette all_ok (one_pixel_bmp (palette ! 0)) s
      = (0, s\<lparr>render_surface := Some \<lparr>w = 1, h = 1, BitsPerPixel = 8, pixels = [0]\<rparr>,
              render_texture := Some \<lparr>w = 1, h = 1, BitsPerPixel = 8, pixels = [0]\<rparr>,
              logical_size := (1, 1)\<rparr>)"
    by (subst renderNewSurface_success) (simp_all add: all_ok_def one_pixel_bmp_def)
  then show ?thesis by (simp add: loadNewBMP_def)
qed

text \<open>
  Claim C9.  From the initial state (level 0), every sequence of events is handled to the
  end and leaves the darkness level an integer in \<open>[0, 8]\<close>; the decrement key at level 0
  and the increment key at level 8 leave the level where it is.
\<close>

theorem darkLevel_in_range:
  "(\<exists>s'. handleEvents palette es initial_state = Some s' \<and> 0 \<le> darkLevel s' \<and> darkLevel s' \<le> 8)
   \<and> (darkLevel s = 0 \<longrightarrow>
        map_option darkLevel (handle_event palette (SDL_KEYDOWN SDL_SCANCODE_UP) s) = Some 0)
   \<and> (darkLevel s = 8 \<longrightarrow>
        map_option darkLevel (handle_event palette (SDL_KEYDOWN SDL_SCANCODE_DOWN) s) = Some 8)"
proof (intro conjI impI)
  show "\<exists>s'. handleEvents palette es initial_state = Some s' \<and> 0 \<le> darkLevel s' \<and> darkLevel s' \<le> 8"
    by (rule handleEvents_range) (simp_all add: initial_state_def)
next
  assume "darkLevel s = 0"
  with relight_total [of s]
  show "map_option darkLevel (handle_event palette (SDL_KEYDOWN SDL_SCANCODE_UP) s) = Some 0"
    by auto
next
  assume "darkLevel s = 8"
  with relight_total [of s]
  show "map_option darkLevel (handle_event palette (SDL_KEYDOWN SDL_SCANCODE_DOWN) s) = Some 8"
    by auto
qed

theorem darkLevel_in_range_witness:
  "(\<exists>s'. handleEvents sample_palette
            [SDL_KEYDOWN SDL_SCANCODE_UP, SDL_KEYDOWN SDL_SCANCODE_DOWN] initial_state = Some s'
          \<and> 0 \<le> darkLevel s' \<and> darkLevel s' \<le> 8)
   \<and> darkLevel initial_state = 0
   \<and> map_option darkLevel (handle_event sample_palette (SDL_KEYDOWN SDL_SCANCODE_UP) initial_state) = Some 0
   \<and> darkLevel (initial_state\<lparr>darkLevel := 8\<rparr>) = 8
   \<and> map_option darkLevel
        (handle_event sample_palette (SDL_KEYDOWN SDL_SCANCODE_DOWN) (initial_state\<lparr>darkLevel := 8\<rparr>)) = Some 8"
  using darkLevel_in_range [of sample_palette
          "[SDL_KEYDOWN SDL_SCANCODE_UP, SDL_KEYDOWN SDL_SCANCODE_DOWN]" initial_state]
        darkLevel_in_range [of sample_palette "[]" "initial_state\<lparr>darkLevel := 8\<rparr>"]
  by (simp add: initial_state_def)

section \<open>The space key\<close>

text \<open>
  Whatever the palette holds, dropping a bitmap whose pixel has the colour of entry 0 gives
  the base buffer \<open>[0]\<close>; pressing the space key then leads to \<open>tinted_state\<close>.
\<close>

lemma tinted_state_reachable:
  assumes "length palette = 256"
  shows "handleEvents palette
           [SDL_DROPFILE (Some (one_pixel_bmp (palette ! 0))) all_ok, SDL_KEYDOWN SDL_SCANCODE_SPACE]
           initial_state = Some tinted_state"
proof -
  let ?s = "initial_state\<lparr>render_surface := Some \<lparr>w = 1, h = 1, BitsPerPixel = 8, pixels = [0]\<rparr>,
                        render_texture := Some \<lparr>w = 1, h = 1, BitsPerPixel = 8, pixels = [0]\<rparr>,
                        logical_size := (1, 1)\<rparr>"
  have "render_surface (?s\<lparr>underWater := \<not> underWater ?s\<rparr>)
          = Some \<lparr>w = 1, h = 1, BitsPerPixel = 8, pixels = [0]\<rparr>" by simp
  from relight_Some [OF this]
  have k: "handle_event palette (SDL_KEYDOWN SDL_SCANCODE_SPACE) ?s = Some tinted_state"
    by (simp add: initial_state_def tinted_state_def underwater_pixel_def dark_pixel_def)
  have d: "handle_event palette (SDL_DROPFILE (Some (one_pixel_bmp (palette ! 0))) all_ok)
             initial_state = Some ?s"
    using assms by (rule drop_first_colour)
  show ?thesis by (simp only: handleEvents.simps d k option.case)
qed

text \<open>
  Claim C5, as amended.  The space key negates the underwater flag and then runs both
  \<open>updateDarkLevel\<close> and \<open>updateUnderwater\<close>: with an image loaded, the lit buffer is
  computed anew from the base buffer, darkened at the current level and then tinted with the
  new flag, and what the lit buffer held before is discarded; with no image loaded only the
  flag changes.
\<close>

theorem space_key_relights:
  "(render_surface s = None \<longrightarrow>
      handle_event palette (SDL_KEYDOWN SDL_SCANCODE_SPACE) s = Some (s\<lparr>underWater := \<not> underWater s\<rparr>))
   \<and> (render_surface s = Some rs \<and> length (pixels rs) = w rs * h rs \<longrightarrow>
      handle_event palette (SDL_KEYDOWN SDL_SCANCODE_SPACE) s =
        Some (s\<lparr>underWater := \<not> underWater s,
                lit_surface := Some \<lparr>w = w rs, h = h rs, BitsPerPixel = 8,
                  pixels = map (\<lambda>v. underwater_pixel (\<not> underWater s) (dark_pixel (darkLevel s) v))
                               (pixels rs)\<rparr>,
                render_texture := Some \<lparr>w = w rs, h = h rs, BitsPerPixel = 8,
                  pixels = map (\<lambda>v. underwater_pixel (\<not> underWater s) (dark_pixel (darkLevel s) v))
                               (pixels rs)\<rparr>\<rparr>))"
proof (intro conjI impI)
  assume "render_surface s = None"
  then show "handle_event palette (SDL_KEYDOWN SDL_SCANCODE_SPACE) s
               = Some (s\<lparr>underWater := \<not> underWater s\<rparr>)"
    by (simp add: updateDarkLevel_None updateUnderwater_None)
next
  assume a: "render_surface s = Some rs \<and> length (pixels rs) = w rs * h rs"
  let ?s = "s\<lparr>underWater := \<not> underWater s\<rparr>"
  from a have "render_surface ?s = Some rs" "length (pixels rs) = w rs * h rs" by simp_all
  from relight_Some [OF this]
  show "handle_event palette (SDL_KEYDOWN SDL_SCANCODE_SPACE) s =
        Some (s\<lparr>underWater := \<not> underWater s,
                lit_surface := Some \<lparr>w = w rs, h = h rs, BitsPerPixel = 8,
                  pixels = map (\<lambda>v. underwater_pixel (\<not> underWater s) (dark_pixel (darkLevel s) v))
                               (pixels rs)\<rparr>,
                render_texture := Some \<lparr>w = w rs, h = h rs, BitsPerPixel = 8,
                  pixels = map (\<lambda>v. underwater_pixel (\<not> underWater s) (dark_pixel (darkLevel s) v))
                               (pixels rs)\<rparr>\<rparr>)"
    by simp
qed

theorem space_key_relights_witness:
  "render_surface initial_state = None
   \<and> handle_event sample_palette (SDL_KEYDOWN SDL_SCANCODE_SPACE) initial_state
       = Some (initial_state\<lparr>underWater := True\<rparr>)
   \<and> render_surface tinted_state = Some \<lparr>w = 1, h = 1, BitsPerPixel = 8, pixels = [0]\<rparr>
   \<and> handle_event sample_palette (SDL_KEYDOWN SDL_SCANCODE_SPACE) tinted_state
       = Some (tinted_state\<lparr>underWater := False,
                lit_surface := Some \<lparr>w = 1, h = 1, BitsPerPixel = 8, pixels = [0]\<rparr>,
                render_texture := Some \<lparr>w = 1, h = 1, BitsPerPixel = 8, pixels = [0]\<rparr>\<rparr>)"
  using space_key_relights [of initial_state sample_palette "new_index8_surface 1 1"]
        space_key_relights [of tinted_state sample_palette
           "\<lparr>w = 1, h = 1, BitsPerPixel = 8, pixels = [0]\<rparr>"]
  by (simp add: initial_state_def tinted_state_def underwater_pixel_def dark_pixel_def)

text \<open>
  Claim C5 as stated fails: with base buffer \<open>[0]\<close>, lit buffer \<open>[16]\<close> and the flag
  set, the space key leaves the lit buffer \<open>[0]\<close>, recomputed from the base buffer, whereas
  the tint loop run with the new flag on the lit buffer \<open>[16]\<close> gives \<open>[16]\<close>.
\<close>

theorem space_key_discards_lit:
  "handle_event sample_palette (SDL_KEYDOWN SDL_SCANCODE_SPACE) tinted_state
     = Some (tinted_state\<lparr>underWater := False,
              lit_surface := Some \<lparr>w = 1, h = 1, BitsPerPixel = 8, pixels = [0]\<rparr>,
              render_texture := Some \<lparr>w = 1, h = 1, BitsPerPixel = 8, pixels = [0]\<rparr>\<rparr>)
   \<and> lit_surface tinted_state = Some \<lparr>w = 1, h = 1, BitsPerPixel = 8, pixels = [16]\<rparr>
   \<and> underwater_loop False 1 [16] \<noteq> [0]"
proof (intro conjI)
  have "render_surface (tinted_state\<lparr>underWater := False\<rparr>)
          = Some \<lparr>w = 1, h = 1, BitsPerPixel = 8, pixels = [0]\<rparr>"
    by (simp add: tinted_state_def)
  from relight_Some [OF this]
  show "handle_event sample_palette (SDL_KEYDOWN SDL_SCANCODE_SPACE) tinted_state
     = Some (tinted_state\<lparr>underWater := False,
              lit_surface := Some \<lparr>w = 1, h = 1, BitsPerPixel = 8, pixels = [0]\<rparr>,
              render_texture := Some \<lparr>w = 1, h = 1, BitsPerPixel = 8, pixels = [0]\<rparr>\<rparr>)"
    by (simp add: tinted_state_def underwater_pixel_def dark_pixel_def)
  show "lit_surface tinted_state = Some \<lparr>w = 1, h = 1, BitsPerPixel = 8, pixels = [16]\<rparr>"
    by (simp add: tinted_state_def)
  have "underwater_loop False 1 [16] = map (underwater_pixel False) [16]"
    by (rule underwater_loop_map) simp
  then show "underwater_loop False 1 [16] \<noteq> [0]"
    by (simp add: underwater_pixel_def)
qed

section \<open>Dropped files\<close>

text \<open>
  Claim C4, on the code.  In every state, dropping a 32-bit bitmap of 2x1 pixels fails in
  \<open>convertSurfaceToIndex\<close>, and \<open>loadNewBMP\<close> returns 1 with \<open>render_surface\<close> already
  replaced by the new, cleared 2x1 surface.  Darkness level, underwater flag, lit buffer and
  texture are as before, but with an image on display (base buffer \<open>[5]\<close>) the next level
  keys display the cleared surface, where without the failed drop they display the image
  again.
\<close>

theorem failed_drop_replaces_base:
  "loadNewBMP palette all_ok (Some argb_bmp) s
     = (1, s\<lparr>render_surface := Some \<lparr>w = 2, h = 1, BitsPerPixel = 8, pixels = [0, 0]\<rparr>\<rparr>)
   \<and> handleEvents palette
        [SDL_DROPFILE (Some argb_bmp) all_ok, SDL_KEYDOWN SDL_SCANCODE_DOWN, SDL_KEYDOWN SDL_SCANCODE_UP]
        showing_state
     = Some (showing_state
              \<lparr>render_surface := Some \<lparr>w = 2, h = 1, BitsPerPixel = 8, pixels = [0, 0]\<rparr>,
               lit_surface := Some \<lparr>w = 2, h = 1, BitsPerPixel = 8, pixels = [0, 0]\<rparr>,
               render_texture := Some \<lparr>w = 2, h = 1, BitsPerPixel = 8, pixels = [0, 0]\<rparr>\<rparr>)
   \<and> handleEvents palette [SDL_KEYDOWN SDL_SCANCODE_DOWN, SDL_KEYDOWN SDL_SCANCODE_UP] showing_state
     = Some showing_state"
proof (intro conjI)
  let ?blank = "\<lparr>w = 2, h = 1, BitsPerPixel = 8, pixels = [0, 0]\<rparr> :: SDL_Surface"
  let ?base = "\<lparr>w = 1, h = 1, BitsPerPixel = 8, pixels = [5]\<rparr> :: SDL_Surface"
  have load: "loadNewBMP palette all_ok (Some argb_bmp) s'
                = (1, s'\<lparr>render_surface := Some ?blank\<rparr>)" for s'
    by (simp add: loadNewBMP_def renderNewSurface_wrong_depth all_ok_def argb_bmp_def
          new_index8_surface_def numeral_2_eq_2)
  then show "loadNewBMP palette all_ok (Some argb_bmp) s
                = (1, s\<lparr>render_surface := Some ?blank\<rparr>)" .
  have relight: "render_surface s = Some rs \<Longrightarrow> length (pixels rs) = w rs * h rs \<Longrightarrow>
      darkLevel s = 0 \<Longrightarrow> \<not> underWater s \<Longrightarrow>
      handleEvents palette [SDL_KEYDOWN SDL_SCANCODE_DOWN, SDL_KEYDOWN SDL_SCANCODE_UP] s
        = Some (s\<lparr>lit_surface := Some \<lparr>w = w rs, h = h rs, BitsPerPixel = 8,
                                       pixels = map (dark_pixel 0) (pixels rs)\<rparr>,
                   render_texture := Some \<lparr>w = w rs, h = h rs, BitsPerPixel = 8,
                                       pixels = map (dark_pixel 0) (pixels rs)\<rparr>\<rparr>)" for s rs
    by (simp add: relight_Some underwater_pixel_def)
  have "handleEvents palette [SDL_KEYDOWN SDL_SCANCODE_DOWN, SDL_KEYDOWN SDL_SCANCODE_UP]
          (showing_state\<lparr>render_surface := Some ?blank\<rparr>)
        = Some (showing_state\<lparr>render_surface := Some ?blank, lit_surface := Some ?blank,
                  render_texture := Some ?blank\<rparr>)"
    by (subst relight [where rs = ?blank]) (simp_all add: showing_state_def dark_pixel_def)
  with load show "handleEvents palette
        [SDL_DROPFILE (Some argb_bmp) all_ok, SDL_KEYDOWN SDL_SCANCODE_DOWN, SDL_KEYDOWN SDL_SCANCODE_UP]
        showing_state
     = Some (showing_state\<lparr>render_surface := Some ?blank, lit_surface := Some ?blank,
               render_texture := Some ?blank\<rparr>)"
    by simp
  show "handleEvents palette [SDL_KEYDOWN SDL_SCANCODE_DOWN, SDL_KEYDOWN SDL_SCANCODE_UP] showing_state
     = Some showing_state"
    by (subst relight [where rs = ?base]) (simp_all add: showing_state_def dark_pixel_def)
qed

text \<open>
  Claim C6, on the code.  Whatever the 256 entries of the palette are: after two presses of
  the increment key (level 2), a 24-bit bitmap whose pixel has the colour of entry 0 is
  dropped and loads.  The level and the flag are kept, but the texture on display is the base
  buffer \<open>[0]\<close> itself and \<open>lit_surface\<close> is not touched; darkened at level 2 and tinted
  with the flag the buffer would be \<open>[64]\<close>.
\<close>

theorem drop_shows_base_buffer:
  assumes "length palette = 256"
  shows "handleEvents palette
     [SDL_KEYDOWN SDL_SCANCODE_DOWN, SDL_KEYDOWN SDL_SCANCODE_DOWN,
      SDL_DROPFILE (Some (one_pixel_bmp (palette ! 0))) all_ok] initial_state
     = Some \<lparr>render_surface = Some \<lparr>w = 1, h = 1, BitsPerPixel = 8, pixels = [0]\<rparr>,
             lit_surface = None,
             render_texture = Some \<lparr>w = 1, h = 1, BitsPerPixel = 8, pixels = [0]\<rparr>,
             logical_size = (1, 1), exitRequested = False, darkLevel = 2, underWater = False\<rparr>
   \<and> map (\<lambda>v. underwater_pixel False (dark_pixel 2 v)) [0] = [64]"
proof (intro conjI)
  have keys: "handleEvents palette
                [SDL_KEYDOWN SDL_SCANCODE_DOWN, SDL_KEYDOWN SDL_SCANCODE_DOWN,
                 SDL_DROPFILE (Some (one_pixel_bmp (palette ! 0))) all_ok] initial_state
              = handle_event palette (SDL_DROPFILE (Some (one_pixel_bmp (palette ! 0))) all_ok)
                  (initial_state\<lparr>darkLevel := 2\<rparr>)"
    by (simp add: initial_state_def updateDarkLevel_None updateUnderwater_None)
  show "handleEvents palette
     [SDL_KEYDOWN SDL_SCANCODE_DOWN, SDL_KEYDOWN SDL_SCANCODE_DOWN,
      SDL_DROPFILE (Some (one_pixel_bmp (palette ! 0))) all_ok] initial_state
     = Some \<lparr>render_surface = Some \<lparr>w = 1, h = 1, BitsPerPixel = 8, pixels = [0]\<rparr>,
             lit_surface = None,
             render_texture = Some \<lparr>w = 1, h = 1, BitsPerPixel = 8, pixels = [0]\<rparr>,
             logical_size = (1, 1), exitRequested = False, darkLevel = 2, underWater = False\<rparr>"
    unfolding keys drop_first_colour [OF assms] by (simp add: initial_state_def)
  show "map (\<lambda>v. underwater_pixel False (dark_pixel 2 v)) [0] = [64]"
    by (simp add: underwater_pixel_def dark_pixel_def)
qed

theorem drop_shows_base_buffer_witness:
  "length sample_palette = 256
   \<and> handleEvents sample_palette
     [SDL_KEYDOWN SDL_SCANCODE_DOWN, SDL_KEYDOWN SDL_SCANCODE_DOWN,
      SDL_DROPFILE (Some \<lparr>w = 1, h = 1, BitsPerPixel = 24, pixels = [0, 0, 0]\<rparr>) all_ok] initial_state
     = Some \<lparr>render_surface = Some \<lparr>w = 1, h = 1, BitsPerPixel = 8, pixels = [0]\<rparr>,
             lit_surface = None,
             render_texture = Some \<lparr>w = 1, h = 1, BitsPerPixel = 8, pixels = [0]\<rparr>,
             logical_size = (1, 1), exitRequested = False, darkLevel = 2, underWater = False\<rparr>"
  using drop_shows_base_buffer [of sample_palette]
  by (simp add: sample_palette_def one_pixel_bmp_def)

end
